theory Spec2Isabelle
  imports Main
begin

section \<open>AI Content Assistant MCP server (index.js)\<close>

text \<open>
  A shallow embedding of \<^verbatim>\<open>index.js\<close>: the start-up script (credential check, route
  registration, listen), the handler of the \<^verbatim>\<open>generateContentOutline\<close> tool and the
  health-check route. The Gemini SDK, Express, zod and the MCP host are libraries the file
  consumes; they appear as parameters (the backend) or as the small part of their documented
  behaviour the file relies on.
\<close>

subsection \<open>JavaScript values and completions\<close>

text \<open>
  The values that reach the handler and leave it: \<^verbatim>\<open>undefined\<close>, \<^verbatim>\<open>null\<close>, strings and
  plain objects (own properties in insertion order). Strings are \<open>char list\<close>s.
\<close>

datatype js_value =
    JUndefined
  | JNull
  | JString string
  | JObject "(string \<times> js_value) list"

text \<open>
  A thrown value: an \<^verbatim>\<open>Error\<close> with its message (whatever detail the thrower put there),
  or the \<^verbatim>\<open>TypeError\<close> the engine raises when a property of \<^verbatim>\<open>undefined\<close> or
  \<^verbatim>\<open>null\<close> is read.
\<close>

datatype js_error = JsError string | JsTypeError

text \<open>An evaluation either returns a value or throws (for an awaited promise: fulfils or rejects).\<close>

datatype 'a completion = Returns 'a | Throws js_error

text \<open>\<^verbatim>\<open>v.k\<close>: reading a property. Only own properties are modelled.\<close>

fun get_prop :: "js_value \<Rightarrow> string \<Rightarrow> js_value completion" where
  "get_prop JUndefined k = Throws JsTypeError"
| "get_prop JNull k = Throws JsTypeError"
| "get_prop (JString s) k = Returns JUndefined"
| "get_prop (JObject props) k =
     Returns (case map_of props k of Some v \<Rightarrow> v | None \<Rightarrow> JUndefined)"

text \<open>
  \<^verbatim>\<open>ToString\<close>, as a template literal applies it to a substituted value. An object is
  converted by its \<^verbatim>\<open>toString\<close> method: the inherited one gives \<^verbatim>\<open>[object Object]\<close>;
  an own \<^verbatim>\<open>toString\<close> property hides it, and since no value of \<open>js_value\<close> is callable
  the conversion then throws a \<^verbatim>\<open>TypeError\<close>.
\<close>

fun ToString :: "js_value \<Rightarrow> string completion" where
  "ToString JUndefined = Returns ''undefined''"
| "ToString JNull = Returns ''null''"
| "ToString (JString s) = Returns s"
| "ToString (JObject props) =
     (case map_of props ''toString'' of
        None \<Rightarrow> Returns ''[object Object]''
      | Some v \<Rightarrow> Throws JsTypeError)"

subsection \<open>The prompt template (index.js, lines 49 to 73)\<close>

text \<open>
  The template literal has three literal pieces around two substitutions of
  \<^verbatim>\<open>${input.topic}\<close>. The pieces are copied from the source character by character,
  line breaks and indentation included.
\<close>

definition quasi_head :: string where
  \<open>quasi_head =
     ''\<newline>'' @
     ''        You are an expert content strategist and editor.\<newline>'' @
     ''        A user wants to write a blog post about the following topic: "''\<close>

definition quasi_mid :: string where
  \<open>quasi_mid =
     ''".\<newline>'' @
     ''\<newline>'' @
     ''        Your task is to generate a comprehensive, well-structured content outline for this blog post.\<newline>'' @
     ''        The outline should be logical, flow well, and cover the key aspects of the topic.\<newline>'' @
     ''        Use a multi-level format with headings and bullet points.\<newline>'' @
     ''\<newline>'' @
     ''        Example Structure:\<newline>'' @
     ''        I. Introduction\<newline>'' @
     ''           - Hook: Start with a compelling statistic or question.\<newline>'' @
     ''           - Briefly introduce the topic and its importance.\<newline>'' @
     ''           - State the main argument or what the reader will learn.\<newline>'' @
     ''        II. Main Point 1\<newline>'' @
     ''           - Sub-point A\<newline>'' @
     ''           - Sub-point B\<newline>'' @
     ''        III. Main Point 2\<newline>'' @
     ''           - Sub-point A\<newline>'' @
     ''           - Sub-point B\<newline>'' @
     ''        IV. Conclusion\<newline>'' @
     ''           - Summarize the key points.\<newline>'' @
     ''           - Offer a final thought or call to action.\<newline>'' @
     ''\<newline>'' @
     ''        Generate the outline now for the topic: "''\<close>

definition quasi_tail :: string where
  \<open>quasi_tail =
     ''"\<newline>'' @
     ''      ''\<close>

datatype template_part = Quasi string | InputTopic

definition prompt_template :: "template_part list" where
  "prompt_template =
     [Quasi quasi_head, InputTopic, Quasi quasi_mid, InputTopic, Quasi quasi_tail]"

text \<open>
  Evaluating a template literal: the literal pieces and the \<^verbatim>\<open>ToString\<close> of each
  substituted expression, concatenated left to right; a substitution that throws aborts
  the evaluation.
\<close>

fun eval_template :: "template_part list \<Rightarrow> js_value \<Rightarrow> string completion" where
  "eval_template [] input = Returns []"
| "eval_template (Quasi s # ps) input =
     (case eval_template ps input of
        Throws e \<Rightarrow> Throws e
      | Returns rest \<Rightarrow> Returns (s @ rest))"
| "eval_template (InputTopic # ps) input =
     (case get_prop input ''topic'' of
        Throws e \<Rightarrow> Throws e
      | Returns v \<Rightarrow>
          (case ToString v of
             Throws e \<Rightarrow> Throws e
           | Returns text \<Rightarrow>
               (case eval_template ps input of
                  Throws e \<Rightarrow> Throws e
                | Returns rest \<Rightarrow> Returns (text @ rest))))"

subsection \<open>Process state and the backend\<close>

datatype log_arg = LogString string | LogError js_error

datatype console_entry = ConsoleError "log_arg list" | ConsoleLog "log_arg list"

datatype port = EnvPort string | DefaultPort

datatype route_target = McpRouter | HealthCheck

datatype route = Use string route_target | Get string route_target

text \<open>
  What the script and the handler act on: the console, the calls made to
  \<^verbatim>\<open>model.generateContent\<close> (the prompt of each, oldest first), the exit code once
  \<^verbatim>\<open>process.exit\<close> has run or the process has died, the port the server listens on once
  \<^verbatim>\<open>app.listen\<close> has bound it, and the routes registered on \<^verbatim>\<open>app\<close> in order.
\<close>

record process_state =
  console :: "console_entry list"
  backend_calls :: "string list"
  exit_code :: "nat option"
  listen_port :: "port option"
  routes :: "route list"

text \<open>
  The SDK objects: \<^verbatim>\<open>result.response\<close> and what \<^verbatim>\<open>response.text()\<close> does when called
  (the SDK declares it to return a string; it throws on a blocked or malformed candidate).
\<close>

record content_response =
  text_call :: "string completion"

record generate_result =
  response :: content_response

text \<open>
  The backend is a parameter: given the calls made before and the prompt, the awaited
  \<^verbatim>\<open>generateContent\<close> fulfils with a result or rejects. The model covers calls that
  settle.
\<close>

type_synonym backend = "string list \<Rightarrow> string \<Rightarrow> generate_result completion"

definition generateContent ::
  "backend \<Rightarrow> string \<Rightarrow> process_state \<Rightarrow> generate_result completion \<times> process_state" where
  "generateContent model prompt p =
     (model (backend_calls p) prompt, p\<lparr>backend_calls := backend_calls p @ [prompt]\<rparr>)"

subsection \<open>The tool handler (index.js, lines 45 to 87)\<close>

text \<open>The body of the \<^verbatim>\<open>try\<close> block.\<close>

definition handler_try ::
  "backend \<Rightarrow> js_value \<Rightarrow> process_state \<Rightarrow> js_value completion \<times> process_state" where
  "handler_try model input p =
     (case eval_template prompt_template input of
        Throws e \<Rightarrow> (Throws e, p)
      | Returns prompt \<Rightarrow>
          (case generateContent model prompt p of
             (Throws e, p1) \<Rightarrow> (Throws e, p1)
           | (Returns result, p1) \<Rightarrow>
               (case text_call (response result) of
                  Throws e \<Rightarrow> (Throws e, p1)
                | Returns outlineText \<Rightarrow>
                    (Returns (JObject [(''outline'', JString outlineText)]), p1))))"

text \<open>The handler: the \<^verbatim>\<open>try\<close> block, and the \<^verbatim>\<open>catch\<close> block on anything it throws.\<close>

definition handler ::
  "backend \<Rightarrow> js_value \<Rightarrow> process_state \<Rightarrow> js_value completion \<times> process_state" where
  "handler model input p =
     (case handler_try model input p of
        (Returns v, p1) \<Rightarrow> (Returns v, p1)
      | (Throws error, p1) \<Rightarrow>
          (Throws (JsError ''There was an issue contacting the AI content strategist.''),
           p1\<lparr>console := console p1 @
                  [ConsoleError [LogString ''Error calling Gemini API:'', LogError error]]\<rparr>))"

text \<open>
  The MCP host validates the arguments of a call against the input schema before it runs
  the handler, so the handler receives the object \<^verbatim>\<open>{ topic: t }\<close> for a string \<open>t\<close>.
\<close>

abbreviation tool_request :: "string \<Rightarrow> js_value" where
  "tool_request topic \<equiv> JObject [(''topic'', JString topic)]"

subsection \<open>Counting occurrences of a substring\<close>

text \<open>\<^verbatim>\<open>s.startsWith(t)\<close>.\<close>

fun starts_with :: "string \<Rightarrow> string \<Rightarrow> bool" where
  "starts_with s [] = True"
| "starts_with [] (c # t) = False"
| "starts_with (x # s) (c # t) = (x = c \<and> starts_with s t)"

text \<open>The number of positions of \<open>s\<close> at which \<open>t\<close> occurs.\<close>

fun occurrences :: "string \<Rightarrow> string \<Rightarrow> nat" where
  "occurrences [] t = (if starts_with [] t then 1 else 0)"
| "occurrences (x # s) t = (if starts_with (x # s) t then 1 else 0) + occurrences s t"

subsection \<open>The declared schemas (index.js, lines 36 to 42)\<close>

text \<open>
  The part of zod the file uses: a string schema carries the list of checks added to it
  (\<^verbatim>\<open>z.string()\<close> starts with none; \<^verbatim>\<open>.min(n)\<close> and \<^verbatim>\<open>.max(n)\<close> would add one),
  an object schema carries its shape, and \<^verbatim>\<open>.describe\<close> attaches a description without
  changing what is accepted.
\<close>

datatype string_check = MinLength nat | MaxLength nat

datatype zod =
    ZString "string_check list"
  | ZObject "(string \<times> zod) list"
  | ZDescribed zod string

fun check_ok :: "string_check \<Rightarrow> string \<Rightarrow> bool" where
  "check_ok (MinLength n) s = (n \<le> length s)"
| "check_ok (MaxLength n) s = (length s \<le> n)"

fun zod_accepts :: "zod \<Rightarrow> js_value \<Rightarrow> bool"
  and zod_accepts_shape :: "(string \<times> zod) list \<Rightarrow> (string \<times> js_value) list \<Rightarrow> bool" where
  "zod_accepts (ZString checks) v =
     (case v of JString s \<Rightarrow> list_all (\<lambda>c. check_ok c s) checks | _ \<Rightarrow> False)"
| "zod_accepts (ZObject shape) v =
     (case v of JObject props \<Rightarrow> zod_accepts_shape shape props | _ \<Rightarrow> False)"
| "zod_accepts (ZDescribed z d) v = zod_accepts z v"
| "zod_accepts_shape [] props = True"
| "zod_accepts_shape ((k, z) # shape) props =
     (zod_accepts z (case map_of props k of Some v \<Rightarrow> v | None \<Rightarrow> JUndefined)
      \<and> zod_accepts_shape shape props)"

definition input_schema :: zod where
  \<open>input_schema =
     ZObject [(''topic'',
       ZDescribed (ZString [])
         (''The main topic or title of the content you want to write. '' @
          ''For example: "the future of artificial intelligence".''))]\<close>

definition output_schema :: zod where
  "output_schema =
     ZObject [(''outline'',
       ZDescribed (ZString []) ''The formatted, multi-level content outline.'')]"

subsection \<open>Start-up (index.js, lines 11 to 21 and 90 to 99)\<close>

text \<open>
  \<^verbatim>\<open>process.env\<close> once \<^verbatim>\<open>dotenv/config\<close> has loaded: a map from variable names to strings.
\<close>

type_synonym env = "string \<rightharpoonup> string"

text \<open>A missing variable and the empty string are the falsy values of \<^verbatim>\<open>process.env\<close>.\<close>

fun falsy :: "string option \<Rightarrow> bool" where
  "falsy None = True"
| "falsy (Some s) = (s = [])"

text \<open>\<^verbatim>\<open>process.env.PORT || 3000\<close>; \<open>DefaultPort\<close> is the number 3000.\<close>

definition port_of :: "env \<Rightarrow> port" where
  "port_of e = (case e ''PORT'' of None \<Rightarrow> DefaultPort
                | Some s \<Rightarrow> if s = [] then DefaultPort else EnvPort s)"

fun port_text :: "port \<Rightarrow> string" where
  "port_text (EnvPort s) = s"
| "port_text DefaultPort = ''3000''"

text \<open>
  Whether \<^verbatim>\<open>app.listen(port)\<close> binds is decided outside the script, by the runtime and the
  operating system (a port out of range, in use or not permitted fails), so it is a
  parameter: the outcome for each port.
\<close>

datatype listen_outcome = Bound | BindFailed

type_synonym listener = "port \<Rightarrow> listen_outcome"

text \<open>
  The script from top to bottom. \<^verbatim>\<open>process.exit(1)\<close> ends the run at once, so nothing
  after line 18 happens on that branch. On the other branch the routes are registered and
  \<^verbatim>\<open>app.listen(port)\<close> is reached: when it binds, its callback logs the port and the
  server runs; when it fails, the error is not handled anywhere, the callback never runs
  and the process dies with exit code 1.
\<close>

definition main :: "env \<Rightarrow> listener \<Rightarrow> process_state" where
  "main e listen =
     (let port = port_of e;
          geminiApiKey = e ''GEMINI_API_KEY''
      in if falsy geminiApiKey
         then \<lparr>console =
                  [ConsoleError [LogString ''Error: GEMINI_API_KEY is not set in the environment.'']],
               backend_calls = [], exit_code = Some 1, listen_port = None, routes = []\<rparr>
         else case listen port of
                Bound \<Rightarrow>
                  \<lparr>console =
                     [ConsoleLog [LogString (''Server is live on port '' @ port_text port)]],
                   backend_calls = [], exit_code = None, listen_port = Some port,
                   routes = [Use ''/mcp'' McpRouter, Get ''/'' HealthCheck]\<rparr>
              | BindFailed \<Rightarrow>
                  \<lparr>console = [], backend_calls = [], exit_code = Some 1, listen_port = None,
                   routes = [Use ''/mcp'' McpRouter, Get ''/'' HealthCheck]\<rparr>)"

subsection \<open>Serving HTTP requests (index.js, lines 91 to 95)\<close>

text \<open>
  A request: its method and the path of its URL, without the query. \<open>OtherMethod\<close>
  stands for PUT, DELETE, PATCH and the like.
\<close>

datatype http_method = GET | HEAD | POST | OtherMethod

record http_request =
  req_method :: http_method
  req_path :: string

text \<open>
  A response: the status, the \<^verbatim>\<open>Content-Type\<close> header (media type and charset) when one
  is set, and the body.
\<close>

datatype content_type = ContentType string "string option"

record http_response =
  statusCode :: nat
  content_type :: "content_type option"
  body :: string

text \<open>A response object starts with status 200, no \<^verbatim>\<open>Content-Type\<close> and no body.\<close>

definition fresh_response :: http_response where
  "fresh_response = \<lparr>statusCode = 200, content_type = None, body = []\<rparr>"

text \<open>
  Express's \<^verbatim>\<open>res.send\<close> with a string: a response without a \<^verbatim>\<open>Content-Type\<close> gets
  \<^verbatim>\<open>text/html\<close>, the charset becomes \<^verbatim>\<open>utf-8\<close>, and the string is the body. The status
  is left as it is.
\<close>

definition send :: "string \<Rightarrow> http_response \<Rightarrow> http_response" where
  "send b res =
     res\<lparr>content_type :=
           (case content_type res of
              None \<Rightarrow> Some (ContentType ''text/html'' (Some ''utf-8''))
            | Some (ContentType media cs) \<Rightarrow> Some (ContentType media (Some ''utf-8''))),
         body := b\<rparr>"

text \<open>The callback of \<^verbatim>\<open>app.get('/')\<close>.\<close>

definition health_check :: "http_request \<Rightarrow> http_response \<Rightarrow> http_response" where
  "health_check req res =
     send ''AI Content Assistant MCP Server is running and ready to help!'' res"


text \<open>
  Express matches paths without regard to the case of letters and, for a route, to one
  trailing slash. A mount at a prefix takes the prefix itself and every path below it, for
  every method; a \<^verbatim>\<open>get\<close> route takes the GET and HEAD requests for its path. The first
  route that matches wins. Route paths are literal (no parameters or wildcards).
\<close>

definition to_lower :: "char \<Rightarrow> char" where
  "to_lower c =
     (case map_of (zip ''ABCDEFGHIJKLMNOPQRSTUVWXYZ'' ''abcdefghijklmnopqrstuvwxyz'') c of
        None \<Rightarrow> c
      | Some l \<Rightarrow> l)"

definition mounted_at :: "string \<Rightarrow> string \<Rightarrow> bool" where
  "mounted_at prefix path =
     (map to_lower path = map to_lower prefix
      \<or> starts_with (map to_lower path) (map to_lower prefix @ ''/''))"

definition route_matches :: "string \<Rightarrow> string \<Rightarrow> bool" where
  "route_matches route path =
     (map to_lower path = map to_lower route
      \<or> map to_lower path = map to_lower route @ ''/''
      \<or> map to_lower path @ ''/'' = map to_lower route)"

fun dispatch :: "route list \<Rightarrow> http_request \<Rightarrow> route_target option" where
  "dispatch [] req = None"
| "dispatch (Use prefix target # rs) req =
     (if mounted_at prefix (req_path req) then Some target else dispatch rs req)"
| "dispatch (Get route target # rs) req =
     (if (req_method req = GET \<or> req_method req = HEAD) \<and> route_matches route (req_path req)
      then Some target else dispatch rs req)"

text \<open>What goes to the client: for HEAD the status and headers without the body.\<close>

definition on_wire :: "http_request \<Rightarrow> http_response \<Rightarrow> http_response" where
  "on_wire req res = (if req_method req = HEAD then res\<lparr>body := []\<rparr> else res)"

text \<open>
  What a client gets: nothing when the process has exited or never listened; otherwise the
  health-check response, a hand-over to the MCP router, or Express's 404.
\<close>

datatype http_outcome = Unreachable | Responded http_response | HandledByMcp | NotFound

definition running :: "process_state \<Rightarrow> bool" where
  "running p = (exit_code p = None \<and> listen_port p \<noteq> None)"

definition handle_request ::
  "backend \<Rightarrow> process_state \<Rightarrow> http_request \<Rightarrow> http_outcome" where
  "handle_request model p req =
     (if \<not> running p then Unreachable
      else case dispatch (routes p) req of
             None \<Rightarrow> NotFound
           | Some HealthCheck \<Rightarrow> Responded (on_wire req (health_check req fresh_response))
           | Some McpRouter \<Rightarrow> HandledByMcp)"

section \<open>Properties\<close>

subsection \<open>Auxiliary facts\<close>

lemma eval_prompt_template:
  "eval_template prompt_template (tool_request topic) =
     Returns (quasi_head @ topic @ quasi_mid @ topic @ quasi_tail)"
  by (simp add: prompt_template_def)

lemma starts_with_append: "starts_with (t @ r) t"
  by (induction t) simp_all

lemma occurrences_self_prefix: "1 \<le> occurrences (t @ r) t"
proof (cases "t @ r")
  case Nil
  then show ?thesis by simp
next
  case (Cons x s)
  have "starts_with (t @ r) t" by (rule starts_with_append)
  with Cons show ?thesis by simp
qed

lemma occurrences_suffix: "occurrences s t \<le> occurrences (a @ s) t"
  by (induction a) simp_all

lemma occurrences_twice:
  assumes "m \<noteq> []"
  shows "2 \<le> occurrences (a @ t @ m @ t @ r) t"
proof -
  obtain x m' where m: "m = x # m'" using assms by (cases m) auto
  have tail: "1 \<le> occurrences (m' @ t @ r) t"
    using occurrences_self_prefix [of t r] occurrences_suffix [of "t @ r" t m'] by simp
  have "2 \<le> occurrences (t @ m @ t @ r) t"
  proof (cases t)
    case Nil
    with tail m show ?thesis by simp
  next
    case (Cons c t')
    have sw: "starts_with (t @ (m @ t @ r)) t" by (rule starts_with_append)
    have "occurrences (m' @ t @ r) t \<le> occurrences (t' @ m @ t @ r) t"
      using occurrences_suffix [of "m' @ t @ r" t "t' @ [x]"] m by simp
    with tail have "1 \<le> occurrences (t' @ m @ t @ r) t" by simp
    with sw Cons show ?thesis by simp
  qed
  then show ?thesis
    using occurrences_suffix [of "t @ m @ t @ r" t a] by simp
qed

lemma quasi_mid_nonempty: "quasi_mid \<noteq> []"
  by (simp add: quasi_mid_def)

text \<open>A server whose bind fails answers nothing, credential or not.\<close>

lemma bind_failure_unreachable:
  assumes "listen (port_of e) = BindFailed"
  shows "handle_request model (main e listen) req = Unreachable"
  using assms by (simp add: main_def handle_request_def running_def Let_def)

text \<open>The three ways through the handler once the prompt is built.\<close>

lemma handler_rejects:
  assumes "eval_template prompt_template input = Returns prompt"
    and "model (backend_calls p) prompt = Throws e"
  shows "handler model input p =
     (Throws (JsError ''There was an issue contacting the AI content strategist.''),
      p\<lparr>backend_calls := backend_calls p @ [prompt],
        console := console p @
          [ConsoleError [LogString ''Error calling Gemini API:'', LogError e]]\<rparr>)"
  using assms by (simp add: handler_def handler_try_def generateContent_def)

lemma handler_text_throws:
  assumes "eval_template prompt_template input = Returns prompt"
    and "model (backend_calls p) prompt = Returns r"
    and "text_call (response r) = Throws e"
  shows "handler model input p =
     (Throws (JsError ''There was an issue contacting the AI content strategist.''),
      p\<lparr>backend_calls := backend_calls p @ [prompt],
        console := console p @
          [ConsoleError [LogString ''Error calling Gemini API:'', LogError e]]\<rparr>)"
  using assms by (simp add: handler_def handler_try_def generateContent_def)

lemma handler_backend_calls:
  assumes "eval_template prompt_template input = Returns prompt"
  shows "backend_calls (snd (handler model input p)) = backend_calls p @ [prompt]"
  using assms
  by (simp add: handler_def handler_try_def generateContent_def split: completion.splits)

lemma handler_outcome:
  assumes "eval_template prompt_template input = Returns prompt"
  shows "fst (handler model input p) =
    (case model (backend_calls p) prompt of
       Throws e \<Rightarrow> Throws (JsError ''There was an issue contacting the AI content strategist.'')
     | Returns r \<Rightarrow>
         (case text_call (response r) of
            Throws e \<Rightarrow>
              Throws (JsError ''There was an issue contacting the AI content strategist.'')
          | Returns T \<Rightarrow> Returns (JObject [(''outline'', JString T)])))"
  using assms
  by (simp add: handler_def handler_try_def generateContent_def split: completion.splits)

subsection \<open>The prompt contains the topic\<close>

text \<open>
  Claim C1, as the code has it: for every topic string the prompt built by the handler is
  the fixed template with the topic embedded unmodified at its two substitution points
  (lines 51 and 72), so the topic occurs in the prompt at least twice.
\<close>

theorem prompt_embeds_topic_twice:
  "eval_template prompt_template (tool_request topic) =
     Returns (quasi_head @ topic @ quasi_mid @ topic @ quasi_tail)
   \<and> length (filter (\<lambda>part. part = InputTopic) prompt_template) = 2
   \<and> 2 \<le> occurrences (quasi_head @ topic @ quasi_mid @ topic @ quasi_tail) topic"
proof (intro conjI)
  show "eval_template prompt_template (tool_request topic) =
     Returns (quasi_head @ topic @ quasi_mid @ topic @ quasi_tail)"
    by (rule eval_prompt_template)
  show "length (filter (\<lambda>part. part = InputTopic) prompt_template) = 2"
    by (simp add: prompt_template_def)
  show "2 \<le> occurrences (quasi_head @ topic @ quasi_mid @ topic @ quasi_tail) topic"
    by (rule occurrences_twice [OF quasi_mid_nonempty])
qed

text \<open>The same at the topic \<^verbatim>\<open>cats\<close>.\<close>

theorem prompt_embeds_topic_twice_witness:
  "eval_template prompt_template (tool_request ''cats'') =
     Returns (quasi_head @ ''cats'' @ quasi_mid @ ''cats'' @ quasi_tail)
   \<and> 2 \<le> occurrences (quasi_head @ ''cats'' @ quasi_mid @ ''cats'' @ quasi_tail) ''cats''"
  using prompt_embeds_topic_twice [of "''cats''"] by simp

text \<open>
  The topic does not occur exactly once: for the topic \<^verbatim>\<open>cats\<close> the prompt contains
  it twice.
\<close>

theorem prompt_topic_once_counterexample:
  "eval_template prompt_template (tool_request ''cats'') =
     Returns (quasi_head @ ''cats'' @ quasi_mid @ ''cats'' @ quasi_tail)
   \<and> occurrences (quasi_head @ ''cats'' @ quasi_mid @ ''cats'' @ quasi_tail) ''cats'' = 2
   \<and> occurrences (quasi_head @ ''cats'' @ quasi_mid @ ''cats'' @ quasi_tail) ''cats'' \<noteq> 1"
proof -
  have "occurrences (quasi_head @ ''cats'' @ quasi_mid @ ''cats'' @ quasi_tail) ''cats'' = 2"
    by code_simp
  then show ?thesis by (simp add: eval_prompt_template)
qed

subsection \<open>Backend failure\<close>

text \<open>
  Claim C2, as the code has it: whenever the backend call fails (the awaited
  \<^verbatim>\<open>generateContent\<close> rejects with \<open>e\<close>, or it fulfils and \<^verbatim>\<open>response.text()\<close> throws
  \<open>e\<close>), the handler logs \<open>e\<close> on the console after the label
  \<^verbatim>\<open>Error calling Gemini API:\<close> and throws one error whose message is the fixed string
  \<^verbatim>\<open>There was an issue contacting the AI content strategist.\<close>, whatever \<open>e\<close> is; the
  backend has been called once.
\<close>

theorem backend_failure_fixed_message:
  assumes "eval_template prompt_template (tool_request topic) = Returns prompt"
    and "model (backend_calls p) prompt = Throws e \<or>
         (\<exists>r. model (backend_calls p) prompt = Returns r \<and> text_call (response r) = Throws e)"
  shows "handler model (tool_request topic) p =
     (Throws (JsError ''There was an issue contacting the AI content strategist.''),
      p\<lparr>backend_calls := backend_calls p @ [prompt],
        console := console p @
          [ConsoleError [LogString ''Error calling Gemini API:'', LogError e]]\<rparr>)"
  using assms handler_rejects handler_text_throws by blast

text \<open>A backend that rejects every call with \<^verbatim>\<open>503 Service Unavailable\<close>.\<close>

theorem backend_failure_fixed_message_witness:
  "eval_template prompt_template (tool_request ''cats'') =
     Returns (quasi_head @ ''cats'' @ quasi_mid @ ''cats'' @ quasi_tail)
   \<and> (\<lambda>calls prompt. Throws (JsError ''503 Service Unavailable''))
        (backend_calls (main [''GEMINI_API_KEY'' \<mapsto> ''key''] (\<lambda>port. Bound)))
        (quasi_head @ ''cats'' @ quasi_mid @ ''cats'' @ quasi_tail) =
      Throws (JsError ''503 Service Unavailable'')
   \<and> handler (\<lambda>calls prompt. Throws (JsError ''503 Service Unavailable''))
        (tool_request ''cats'') (main [''GEMINI_API_KEY'' \<mapsto> ''key''] (\<lambda>port. Bound)) =
      (Throws (JsError ''There was an issue contacting the AI content strategist.''),
       (main [''GEMINI_API_KEY'' \<mapsto> ''key''] (\<lambda>port. Bound))
         \<lparr>backend_calls := [quasi_head @ ''cats'' @ quasi_mid @ ''cats'' @ quasi_tail],
          console := [ConsoleLog [LogString ''Server is live on port 3000''],
            ConsoleError [LogString ''Error calling Gemini API:'',
                          LogError (JsError ''503 Service Unavailable'')]]\<rparr>)"
proof -
  have h1: "eval_template prompt_template (tool_request ''cats'') =
     Returns (quasi_head @ ''cats'' @ quasi_mid @ ''cats'' @ quasi_tail)"
    by (rule eval_prompt_template)
  have h2: "(\<lambda>calls prompt. Throws (JsError ''503 Service Unavailable''))
        (backend_calls (main [''GEMINI_API_KEY'' \<mapsto> ''key''] (\<lambda>port. Bound)))
        (quasi_head @ ''cats'' @ quasi_mid @ ''cats'' @ quasi_tail) =
      Throws (JsError ''503 Service Unavailable'')
      \<or> (\<exists>r. (\<lambda>calls prompt. Throws (JsError ''503 Service Unavailable''))
        (backend_calls (main [''GEMINI_API_KEY'' \<mapsto> ''key''] (\<lambda>port. Bound)))
        (quasi_head @ ''cats'' @ quasi_mid @ ''cats'' @ quasi_tail) = Returns r
          \<and> text_call (response r) = Throws (JsError ''503 Service Unavailable''))"
    by simp
  show ?thesis
    using backend_failure_fixed_message [OF h1 h2] h1
    by (simp add: main_def Let_def port_of_def)
qed

text \<open>
  The message is not \<^verbatim>\<open>there was an issue contacting the content strategist backend\<close>:
  the error the handler throws carries the text of line 85.
\<close>

theorem backend_failure_message_counterexample:
  "fst (handler (\<lambda>calls prompt. Throws (JsError ''503 Service Unavailable''))
          (tool_request ''cats'') (main [''GEMINI_API_KEY'' \<mapsto> ''key''] (\<lambda>port. Bound))) =
     Throws (JsError ''There was an issue contacting the AI content strategist.'')
   \<and> fst (handler (\<lambda>calls prompt. Throws (JsError ''503 Service Unavailable''))
          (tool_request ''cats'') (main [''GEMINI_API_KEY'' \<mapsto> ''key''] (\<lambda>port. Bound))) \<noteq>
     Throws (JsError ''there was an issue contacting the content strategist backend'')"
  by (simp add: handler_outcome [OF eval_prompt_template])

subsection \<open>Outcomes of one invocation\<close>

text \<open>
  Claim C3: for every topic string, one invocation of the handler (with a backend call that
  settles) ends in exactly one of two ways: it returns an object whose \<^verbatim>\<open>outline\<close>
  property is a string, or it throws the one error of the \<^verbatim>\<open>catch\<close> block; never both
  and never neither.
\<close>

theorem handler_success_or_backend_error:
  "((\<exists>T. fst (handler model (tool_request topic) p) =
            Returns (JObject [(''outline'', JString T)]))
    \<or> fst (handler model (tool_request topic) p) =
        Throws (JsError ''There was an issue contacting the AI content strategist.''))
   \<and> \<not> ((\<exists>T. fst (handler model (tool_request topic) p) =
               Returns (JObject [(''outline'', JString T)]))
        \<and> fst (handler model (tool_request topic) p) =
            Throws (JsError ''There was an issue contacting the AI content strategist.''))"
  by (simp add: handler_outcome [OF eval_prompt_template] split: completion.splits)

text \<open>
  Claim C4: when the backend call fulfils and \<^verbatim>\<open>response.text()\<close> returns the text \<open>T\<close>,
  the handler returns \<^verbatim>\<open>{ outline: T }\<close> with \<open>T\<close> itself, character for character:
  nothing is trimmed, cut, reformatted or checked.
\<close>

theorem handler_outline_passthrough:
  assumes "eval_template prompt_template (tool_request topic) = Returns prompt"
    and "model (backend_calls p) prompt = Returns r"
    and "text_call (response r) = Returns T"
  shows "handler model (tool_request topic) p =
     (Returns (JObject [(''outline'', JString T)]),
      p\<lparr>backend_calls := backend_calls p @ [prompt]\<rparr>)"
  using assms by (simp add: handler_def handler_try_def generateContent_def)

text \<open>A backend whose text starts and ends with white space: it comes back as it is.\<close>

theorem handler_outline_passthrough_witness:
  "eval_template prompt_template (tool_request ''cats'') =
     Returns (quasi_head @ ''cats'' @ quasi_mid @ ''cats'' @ quasi_tail)
   \<and> (\<lambda>calls prompt.
         Returns \<lparr>response = \<lparr>text_call = Returns ''  I. Introduction\<newline>   - Hook  \<newline>''\<rparr>\<rparr>)
        (backend_calls (main [''GEMINI_API_KEY'' \<mapsto> ''key''] (\<lambda>port. Bound)))
        (quasi_head @ ''cats'' @ quasi_mid @ ''cats'' @ quasi_tail) =
      Returns \<lparr>response = \<lparr>text_call = Returns ''  I. Introduction\<newline>   - Hook  \<newline>''\<rparr>\<rparr>
   \<and> text_call (response
        \<lparr>response = \<lparr>text_call = Returns ''  I. Introduction\<newline>   - Hook  \<newline>''\<rparr>\<rparr>) =
      Returns ''  I. Introduction\<newline>   - Hook  \<newline>''
   \<and> handler
        (\<lambda>calls prompt.
           Returns \<lparr>response = \<lparr>text_call = Returns ''  I. Introduction\<newline>   - Hook  \<newline>''\<rparr>\<rparr>)
        (tool_request ''cats'') (main [''GEMINI_API_KEY'' \<mapsto> ''key''] (\<lambda>port. Bound)) =
      (Returns (JObject [(''outline'', JString ''  I. Introduction\<newline>   - Hook  \<newline>'')]),
       (main [''GEMINI_API_KEY'' \<mapsto> ''key''] (\<lambda>port. Bound))
         \<lparr>backend_calls := [quasi_head @ ''cats'' @ quasi_mid @ ''cats'' @ quasi_tail]\<rparr>)"
proof -
  let ?r = "\<lparr>response = \<lparr>text_call = Returns ''  I. Introduction\<newline>   - Hook  \<newline>''\<rparr>\<rparr>"
  let ?model = "\<lambda>(calls :: string list) (prompt :: string). Returns ?r"
  let ?p = "main [''GEMINI_API_KEY'' \<mapsto> ''key''] (\<lambda>port. Bound)"
  have h1: "eval_template prompt_template (tool_request ''cats'') =
     Returns (quasi_head @ ''cats'' @ quasi_mid @ ''cats'' @ quasi_tail)"
    by (rule eval_prompt_template)
  have h2: "?model (backend_calls ?p) (quasi_head @ ''cats'' @ quasi_mid @ ''cats'' @ quasi_tail) =
      Returns ?r"
    by simp
  have h3: "text_call (response ?r) = Returns ''  I. Introduction\<newline>   - Hook  \<newline>''"
    by simp
  have calls: "backend_calls ?p = []"
    by (simp add: main_def Let_def)
  show ?thesis
    using handler_outline_passthrough [OF h1 h2 h3] h1 calls by simp
qed

text \<open>
  Claim C5: every invocation of the handler makes exactly one call to
  \<^verbatim>\<open>model.generateContent\<close>, whether the call succeeds or fails: the list of calls grows
  by one entry and the earlier entries are kept, so nothing is retried.
\<close>

theorem handler_one_backend_call:
  "length (backend_calls (snd (handler model (tool_request topic) p))) =
     Suc (length (backend_calls p))
   \<and> butlast (backend_calls (snd (handler model (tool_request topic) p))) = backend_calls p"
  by (simp add: handler_backend_calls [OF eval_prompt_template])

subsection \<open>Start-up and the health check\<close>

text \<open>
  Claim C6: when \<^verbatim>\<open>GEMINI_API_KEY\<close> is absent from the environment, the script logs one
  error on the console and exits with code 1 before any route is registered and before
  \<^verbatim>\<open>app.listen\<close> is reached (whatever a bind would have done), so no request, to the
  tool endpoint or to the health check, gets an answer.
\<close>

theorem missing_credential_exits_before_listen:
  assumes "e ''GEMINI_API_KEY'' = None"
  shows "console (main e listen) =
           [ConsoleError [LogString ''Error: GEMINI_API_KEY is not set in the environment.'']]
    \<and> exit_code (main e listen) = Some 1
    \<and> exit_code (main e listen) \<noteq> Some 0
    \<and> listen_port (main e listen) = None
    \<and> routes (main e listen) = []
    \<and> handle_request model (main e listen) req = Unreachable"
  using assms by (simp add: main_def handle_request_def running_def Let_def)

text \<open>The empty environment, asked for the health check and for the tool endpoint.\<close>

theorem missing_credential_exits_before_listen_witness:
  "(Map.empty :: env) ''GEMINI_API_KEY'' = None
   \<and> console (main Map.empty (\<lambda>port. Bound)) =
        [ConsoleError [LogString ''Error: GEMINI_API_KEY is not set in the environment.'']]
   \<and> exit_code (main Map.empty (\<lambda>port. Bound)) = Some 1
   \<and> listen_port (main Map.empty (\<lambda>port. Bound)) = None
   \<and> handle_request (\<lambda>calls prompt. Throws (JsError ''unused''))
        (main Map.empty (\<lambda>port. Bound))
        \<lparr>req_method = GET, req_path = ''/''\<rparr> = Unreachable
   \<and> handle_request (\<lambda>calls prompt. Throws (JsError ''unused''))
        (main Map.empty (\<lambda>port. Bound))
        \<lparr>req_method = POST, req_path = ''/mcp''\<rparr> = Unreachable"
proof -
  have h: "(Map.empty :: env) ''GEMINI_API_KEY'' = None" by simp
  show ?thesis
    using missing_credential_exits_before_listen [where e = "Map.empty", OF h,
        of "\<lambda>port. Bound" "\<lambda>calls prompt. Throws (JsError ''unused'')"
        "\<lparr>req_method = GET, req_path = ''/''\<rparr>"]
      missing_credential_exits_before_listen [where e = "Map.empty", OF h,
        of "\<lambda>port. Bound" "\<lambda>calls prompt. Throws (JsError ''unused'')"
        "\<lparr>req_method = POST, req_path = ''/mcp''\<rparr>"]
    by simp
qed




subsection \<open>The prompt depends on the topic alone\<close>

text \<open>
  Claim C8: the prompt sent to the backend is the fixed text with the topic, unescaped, at
  the substitution points and nothing else: it does not depend on the backend or on the
  process state, two invocations with the same topic send the same prompt, and in two
  invocations in a row the second prompt holds the second topic only.
\<close>

theorem prompt_function_of_topic_only:
  "backend_calls (snd (handler model (tool_request topic) p)) =
     backend_calls p @ [quasi_head @ topic @ quasi_mid @ topic @ quasi_tail]
   \<and> last (backend_calls (snd (handler model (tool_request topic) p))) =
     last (backend_calls (snd (handler model' (tool_request topic) p')))
   \<and> backend_calls (snd (handler model' (tool_request topic')
        (snd (handler model (tool_request topic) p)))) =
     backend_calls p @ [quasi_head @ topic @ quasi_mid @ topic @ quasi_tail,
                        quasi_head @ topic' @ quasi_mid @ topic' @ quasi_tail]"
  by (simp add: handler_backend_calls [OF eval_prompt_template])

subsection \<open>The schemas\<close>

text \<open>
  Claim C9: the input schema asks only that \<^verbatim>\<open>topic\<close> be a string (every string is
  accepted, the empty one too; \<^verbatim>\<open>null\<close> and a missing \<^verbatim>\<open>topic\<close> are not), and for
  the empty topic the handler still builds the prompt, with nothing at the substitution
  points, calls the backend with it once and maps the backend's outcome as for any topic.
\<close>

theorem empty_topic_accepted_and_sent:
  "zod_accepts input_schema (tool_request topic)
   \<and> zod_accepts input_schema (tool_request [])
   \<and> \<not> zod_accepts input_schema (JObject [(''topic'', JNull)])
   \<and> \<not> zod_accepts input_schema (JObject [])
   \<and> eval_template prompt_template (tool_request []) =
       Returns (quasi_head @ quasi_mid @ quasi_tail)
   \<and> backend_calls (snd (handler model (tool_request []) p)) =
       backend_calls p @ [quasi_head @ quasi_mid @ quasi_tail]
   \<and> fst (handler model (tool_request []) p) =
       (case model (backend_calls p) (quasi_head @ quasi_mid @ quasi_tail) of
          Throws e \<Rightarrow> Throws (JsError ''There was an issue contacting the AI content strategist.'')
        | Returns r \<Rightarrow>
            (case text_call (response r) of
               Throws e \<Rightarrow>
                 Throws (JsError ''There was an issue contacting the AI content strategist.'')
             | Returns T \<Rightarrow> Returns (JObject [(''outline'', JString T)])))"
  using handler_backend_calls [OF eval_prompt_template, where topic1 = "[]"]
    handler_outcome [OF eval_prompt_template, where topic1 = "[]"]
    eval_prompt_template [of "[]"]
  by (simp add: input_schema_def)

text \<open>
  Claim C10: whenever an invocation returns, the value returned is an object with the single
  property \<^verbatim>\<open>outline\<close>, whose value is the string that \<^verbatim>\<open>response.text()\<close> returned,
  and it is accepted by the output schema.
\<close>

theorem handler_result_conforms_output_schema:
  assumes "fst (handler model (tool_request topic) p) = Returns v"
  shows "\<exists>T. v = JObject [(''outline'', JString T)]
     \<and> (\<exists>prompt r. eval_template prompt_template (tool_request topic) = Returns prompt
           \<and> model (backend_calls p) prompt = Returns r
           \<and> text_call (response r) = Returns T)
     \<and> zod_accepts output_schema v"
  using assms
  by (auto simp add: handler_outcome [OF eval_prompt_template] eval_prompt_template
      output_schema_def split: completion.splits)

text \<open>A backend that answers \<^verbatim>\<open>I. Introduction\<close>.\<close>

theorem handler_result_conforms_output_schema_witness:
  "fst (handler (\<lambda>calls prompt. Returns \<lparr>response = \<lparr>text_call = Returns ''I. Introduction''\<rparr>\<rparr>)
          (tool_request ''cats'') (main [''GEMINI_API_KEY'' \<mapsto> ''key''] (\<lambda>port. Bound))) =
     Returns (JObject [(''outline'', JString ''I. Introduction'')])
   \<and> zod_accepts output_schema (JObject [(''outline'', JString ''I. Introduction'')])
   \<and> map fst [(''outline'', JString ''I. Introduction'')] = [''outline'']"
proof -
  let ?model = "\<lambda>(calls :: string list) (prompt :: string).
     Returns \<lparr>response = \<lparr>text_call = Returns ''I. Introduction''\<rparr>\<rparr>"
  let ?p = "main [''GEMINI_API_KEY'' \<mapsto> ''key''] (\<lambda>port. Bound)"
  have h: "fst (handler ?model (tool_request ''cats'') ?p) =
     Returns (JObject [(''outline'', JString ''I. Introduction'')])"
    by (simp add: handler_outcome [OF eval_prompt_template])
  show ?thesis
    using handler_result_conforms_output_schema [OF h] h by simp
qed

end
